theory Spec2Isabelle
  imports Complex_Main "HOL-Library.Word" "HOL-Library.Sublist"
begin

section \<open>JavaScript values\<close>

text \<open>
  A JavaScript string is a sequence of UTF-16 code units. The literals of the two source
  files are written out as code units below; their ASCII parts go through \<open>ascii\<close>.
\<close>

type_synonym jsstring = "16 word list"

definition ascii :: "string \<Rightarrow> jsstring" where
  "ascii s = map of_char s"

text \<open>
  The numbers \<open>JSON.parse\<close> can produce: a finite double (a rational; \<open>-0\<close> is
  \<open>Finite 0\<close>) or an overflowed literal such as \<open>1e999\<close>. \<open>NaN\<close> is not among them.
\<close>

datatype jsnum = Finite rat | PosInfinity | NegInfinity

datatype jsval =
    Undefined
  | Null
  | Bool bool
  | Number jsnum
  | String jsstring
  | Array "jsval list"
  | Object "(jsstring \<times> jsval) list"

text \<open>
  Thrown values. Each carries its \<open>message\<close>. The messages of the errors that the
  engine itself raises, and the rendering of a number as a string, belong to the
  JavaScript engine and are taken from an \<open>engine\<close> record.
\<close>

datatype js_error = Error jsstring | TypeError jsstring | SyntaxError jsstring

fun message :: "js_error \<Rightarrow> jsstring" where
  "message (Error m) = m"
| "message (TypeError m) = m"
| "message (SyntaxError m) = m"

record engine =
  number_to_string :: "jsnum \<Rightarrow> jsstring"
  nullish_read_message :: jsstring
  not_a_function_message :: jsstring
  not_primitive_message :: jsstring

text \<open>\<open>!v\<close> is \<open>\<not> truthy v\<close>.\<close>

fun truthy :: "jsval \<Rightarrow> bool" where
  "truthy Undefined = False"
| "truthy Null = False"
| "truthy (Bool b) = b"
| "truthy (Number n) = (n \<noteq> Finite 0)"
| "truthy (String s) = (s \<noteq> [])"
| "truthy (Array xs) = True"
| "truthy (Object kvs) = True"

text \<open>
  An \<open>Object\<close> lists the members of a parsed JSON object in the order of the text; for a
  repeated key the last member is the property's value.
\<close>

definition own_prop :: "(jsstring \<times> jsval) list \<Rightarrow> jsstring \<Rightarrow> jsval" where
  "own_prop kvs k = (case map_of (rev kvs) k of None \<Rightarrow> Undefined | Some v \<Rightarrow> v)"

text \<open>
  Reading \<open>v.k\<close> for the keys this program reads off a parsed body (\<open>name\<close>,
  \<open>contact\<close>, \<open>services\<close>, \<open>error\<close>): none of them is inherited from a prototype,
  so only an object's own member can give a value, and \<open>undefined\<close> and \<open>null\<close> throw.
\<close>

fun get_prop :: "engine \<Rightarrow> jsval \<Rightarrow> jsstring \<Rightarrow> js_error + jsval" where
  "get_prop e Undefined k = Inl (TypeError (nullish_read_message e))"
| "get_prop e Null k = Inl (TypeError (nullish_read_message e))"
| "get_prop e (Object kvs) k = Inr (own_prop kvs k)"
| "get_prop e v k = Inr Undefined"

text \<open>\<open>v?.length\<close>\<close>

fun opt_length :: "jsval \<Rightarrow> jsval" where
  "opt_length Undefined = Undefined"
| "opt_length Null = Undefined"
| "opt_length (Bool b) = Undefined"
| "opt_length (Number n) = Undefined"
| "opt_length (String s) = Number (Finite (of_nat (length s)))"
| "opt_length (Array xs) = Number (Finite (of_nat (length xs)))"
| "opt_length (Object kvs) = own_prop kvs (ascii ''length'')"

text \<open>\<open>xs.join(sep)\<close> on an array of strings.\<close>

fun join :: "jsstring \<Rightarrow> jsstring list \<Rightarrow> jsstring" where
  "join sep [] = []"
| "join sep [x] = x"
| "join sep (x # y # ys) = x @ sep @ join sep (y # ys)"

text \<open>Evaluating a list of results from left to right: the first throw wins.\<close>

fun sequence :: "('e + 'a) list \<Rightarrow> 'e + 'a list" where
  "sequence [] = Inr []"
| "sequence (Inl err # rs) = Inl err"
| "sequence (Inr x # rs) = (case sequence rs of Inl err \<Rightarrow> Inl err | Inr xs \<Rightarrow> Inr (x # xs))"

text \<open>
  The string conversion of a template literal's \<open>${v}\<close> and of \<open>new Error(v)\<close>. An
  array joins its elements with a comma, \<open>undefined\<close> and \<open>null\<close> elements as the empty
  string. A parsed JSON object has no callable member, so one with an own \<open>toString\<close>
  member cannot be converted; any other renders as \<open>[object Object]\<close>.
\<close>

fun to_string :: "engine \<Rightarrow> jsval \<Rightarrow> js_error + jsstring" where
  "to_string e Undefined = Inr (ascii ''undefined'')"
| "to_string e Null = Inr (ascii ''null'')"
| "to_string e (Bool b) = Inr (ascii (if b then ''true'' else ''false''))"
| "to_string e (Number n) = Inr (number_to_string e n)"
| "to_string e (String s) = Inr s"
| "to_string e (Array xs) =
     (case sequence (map (\<lambda>x. if x = Undefined \<or> x = Null then Inr [] else to_string e x) xs) of
        Inl err \<Rightarrow> Inl err
      | Inr strs \<Rightarrow> Inr (join (ascii '','') strs))"
| "to_string e (Object kvs) =
     (if ascii ''toString'' \<in> fst ` set kvs then Inl (TypeError (not_primitive_message e))
      else Inr (ascii ''[object Object]''))"

section \<open>The outbound call and its outcome\<close>

record fetch_request =
  url :: jsstring
  http_method :: jsstring
  headers :: "(jsstring \<times> jsstring) list"
  body :: "(jsstring \<times> jsval) list"

text \<open>
  \<open>body\<close> holds the members that \<open>JSON.stringify\<close> writes for the object it is given,
  in order: a member whose value is \<open>undefined\<close> is left out.
\<close>

definition stringify_members :: "(jsstring \<times> jsval) list \<Rightarrow> (jsstring \<times> jsval) list" where
  "stringify_members kvs = filter (\<lambda>kv. snd kv \<noteq> Undefined) kvs"

text \<open>
  What \<open>await fetch(...)\<close> gives: a response, with its status and what \<open>res.json()\<close>
  would give, or a rejection (network failure).
\<close>

record response =
  status :: nat
  json :: "js_error + jsval"

datatype fetch_result = Resolved response | Rejected js_error

definition ok :: "response \<Rightarrow> bool" where
  "ok r = (200 \<le> status r \<and> status r \<le> 299)"

section \<open>The relay handler (server.js)\<close>

text \<open>\<open>process.env\<close>: a variable is a string, or \<open>undefined\<close> when it is not set.\<close>

record env =
  BOT_TOKEN :: "jsstring option"
  CHAT_ID :: "jsstring option"

definition env_value :: "jsstring option \<Rightarrow> jsval" where
  "env_value v = (case v of None \<Rightarrow> Undefined | Some s \<Rightarrow> String s)"

text \<open>
  What one run of the handler does: the response it sends (status and JSON body), the
  outbound calls it makes, what it writes with \<open>console.error\<close>, and the error its
  promise rejects with when a statement outside the \<open>try\<close> throws.
\<close>

record handled =
  reply :: "(nat \<times> (jsstring \<times> jsval) list) option"
  fetches :: "fetch_request list"
  console_error :: "jsval list list"
  rejected :: "js_error option"

text \<open>The string literals of server.js.\<close>

definition validation_message :: jsstring where
  "validation_message =
     [0x417, 0x430, 0x43F, 0x43E, 0x43B, 0x43D, 0x438, 0x20, 0x432, 0x441, 0x435, 0x20,
      0x43F, 0x43E, 0x43B, 0x44F, 0x20, 0x438, 0x20, 0x432, 0x44B, 0x431, 0x435, 0x440,
      0x438, 0x20, 0x445, 0x43E, 0x442, 0x44F, 0x20, 0x431, 0x44B, 0x20, 0x43E, 0x434,
      0x43D, 0x443, 0x20, 0x443, 0x441, 0x43B, 0x443, 0x433, 0x443]"

definition greeting_line :: jsstring where
  "greeting_line =
     [0xD83D, 0xDCE9, 0x20, 0x41D, 0x43E, 0x432, 0x430, 0x44F, 0x20, 0x437, 0x430, 0x44F,
      0x432, 0x43A, 0x430, 0x20, 0x441, 0x20, 0x441, 0x430, 0x439, 0x442, 0x430, 0x21]"

definition name_label :: jsstring where
  "name_label = [0xD83D, 0xDC64, 0x20, 0x418, 0x43C, 0x44F, 0x3A, 0x20]"

definition contact_label :: jsstring where
  "contact_label =
     [0xD83D, 0xDCF1, 0x20, 0x41A, 0x43E, 0x43D, 0x442, 0x430, 0x43A, 0x442, 0x3A, 0x20]"

definition services_header :: jsstring where
  "services_header = [0xD83D, 0xDD27, 0x20, 0x423, 0x441, 0x43B, 0x443, 0x433, 0x438, 0x3A]"

definition bullet :: jsstring where
  "bullet = [0x20, 0x20, 0x2022, 0x20]"

definition log_prefix :: jsstring where
  "log_prefix =
     [0x41E, 0x448, 0x438, 0x431, 0x43A, 0x430, 0x20, 0x43E, 0x442, 0x43F, 0x440, 0x430,
      0x432, 0x43A, 0x438, 0x20, 0x432, 0x20] @ ascii ''Telegram:''"

definition generic_message :: jsstring where
  "generic_message =
     [0x41D, 0x435, 0x20, 0x443, 0x434, 0x430, 0x43B, 0x43E, 0x441, 0x44C, 0x20, 0x43E,
      0x442, 0x43F, 0x440, 0x430, 0x432, 0x438, 0x442, 0x44C, 0x20, 0x441, 0x43E, 0x43E,
      0x431, 0x449, 0x435, 0x43D, 0x438, 0x435]"

text \<open>\<open>const { name, contact, services } = req.body\<close>\<close>

definition destructure :: "engine \<Rightarrow> jsval \<Rightarrow> js_error + (jsval \<times> jsval \<times> jsval)" where
  "destructure e b =
     (case get_prop e b (ascii ''name'') of
        Inl err \<Rightarrow> Inl err
      | Inr name \<Rightarrow>
          (case get_prop e b (ascii ''contact'') of
             Inl err \<Rightarrow> Inl err
           | Inr contact \<Rightarrow>
               (case get_prop e b (ascii ''services'') of
                  Inl err \<Rightarrow> Inl err
                | Inr services \<Rightarrow> Inr (name, contact, services))))"

text \<open>
  \<open>services.map(s => `  \<bullet> ${s}`)\<close>: only an array has a callable \<open>map\<close>; on a string,
  or on an object parsed from JSON, the call throws.
\<close>

fun service_lines :: "engine \<Rightarrow> jsval \<Rightarrow> js_error + jsstring list" where
  "service_lines e (Array xs) =
     sequence (map (\<lambda>s. case to_string e s of Inl err \<Rightarrow> Inl err
                                            | Inr str \<Rightarrow> Inr (bullet @ str)) xs)"
| "service_lines e v = Inl (TypeError (not_a_function_message e))"

text \<open>The array literal, element by element, then \<open>.join('\n')\<close>.\<close>

definition build_text :: "engine \<Rightarrow> jsval \<Rightarrow> jsval \<Rightarrow> jsval \<Rightarrow> js_error + jsstring" where
  "build_text e name contact services =
     (case to_string e name of
        Inl err \<Rightarrow> Inl err
      | Inr n \<Rightarrow>
          (case to_string e contact of
             Inl err \<Rightarrow> Inl err
           | Inr c \<Rightarrow>
               (case service_lines e services of
                  Inl err \<Rightarrow> Inl err
                | Inr ls \<Rightarrow>
                    Inr (join [0x0A]
                          ([greeting_line, [], name_label @ n, contact_label @ c, [],
                            services_header] @ ls)))))"

text \<open>
  The call of \<open>fetch\<close>. In the template literal of the URL an unset \<open>BOT_TOKEN\<close>
  reads \<open>undefined\<close>.
\<close>

definition send_message :: "env \<Rightarrow> jsstring \<Rightarrow> fetch_request" where
  "send_message cfg text =
     \<lparr>url = ascii ''https://api.telegram.org/bot''
             @ (case BOT_TOKEN cfg of None \<Rightarrow> ascii ''undefined'' | Some token \<Rightarrow> token)
             @ ascii ''/sendMessage'',
      http_method = ascii ''POST'',
      headers = [(ascii ''Content-Type'', ascii ''application/json'')],
      body = stringify_members
               [(ascii ''chat_id'', env_value (CHAT_ID cfg)),
                (ascii ''text'', String text),
                (ascii ''parse_mode'', String (ascii ''HTML''))]\<rparr>"

text \<open>The \<open>catch\<close> block.\<close>

definition upstream_failure :: "fetch_request list \<Rightarrow> js_error \<Rightarrow> handled" where
  "upstream_failure calls err =
     \<lparr>reply = Some (500, [(ascii ''error'', String generic_message)]),
      fetches = calls,
      console_error = [[String log_prefix, String (message err)]],
      rejected = None\<rparr>"

text \<open>
  The handler of \<open>POST /api/send\<close>, on the parsed body \<open>req.body\<close>, with the result
  of the outbound \<open>fetch\<close> as an input (it is consulted only where the code calls
  \<open>fetch\<close>).
\<close>

definition handle :: "engine \<Rightarrow> env \<Rightarrow> fetch_result \<Rightarrow> jsval \<Rightarrow> handled" where
  "handle e cfg upstream req_body =
     (case destructure e req_body of
        Inl err \<Rightarrow> \<lparr>reply = None, fetches = [], console_error = [], rejected = Some err\<rparr>
      | Inr (name, contact, services) \<Rightarrow>
          if \<not> truthy name \<or> \<not> truthy contact \<or> \<not> truthy (opt_length services)
          then \<lparr>reply = Some (400, [(ascii ''error'', String validation_message)]),
                fetches = [], console_error = [], rejected = None\<rparr>
          else
            (case build_text e name contact services of
               Inl err \<Rightarrow> \<lparr>reply = None, fetches = [], console_error = [], rejected = Some err\<rparr>
             | Inr text \<Rightarrow>
                 (case upstream of
                    Rejected err \<Rightarrow> upstream_failure [send_message cfg text] err
                  | Resolved r \<Rightarrow>
                      if \<not> ok r
                      then upstream_failure [send_message cfg text]
                             (Error (ascii ''Telegram API error''))
                      else \<lparr>reply = Some (200, [(ascii ''success'', Bool True)]),
                            fetches = [send_message cfg text],
                            console_error = [], rejected = None\<rparr>)))"

section \<open>The form controller (the client script)\<close>

text \<open>
  The markup of the page is not among the sources. A \<open>page\<close> holds what the script reads
  and writes of it: the two text inputs (\<open>#name\<close>, \<open>#contact\<close>) with the default value
  their markup gives them, the checkboxes of \<open>#dropdownMenu\<close> in document order, whether
  the menu carries the class \<open>open\<close>, the \<open>#status\<close> element and the \<open>.submit-btn\<close>
  button of the form. Both inputs are controls of \<open>#contactForm\<close>, so that \<open>form.reset()\<close>
  puts each back to its default value.
\<close>

record checkbox =
  cb_value :: jsstring
  checked :: bool

record page =
  name_value :: jsstring
  name_default :: jsstring
  contact_value :: jsstring
  contact_default :: jsstring
  checkboxes :: "checkbox list"
  menu_open :: bool
  status_text :: jsstring
  status_class :: jsstring
  btn_disabled :: bool
  btn_text :: jsstring

text \<open>The string literals of the client script.\<close>

definition select_service_message :: jsstring where
  "select_service_message =
     [0x412, 0x44B, 0x431, 0x435, 0x440, 0x438, 0x442, 0x435, 0x20, 0x445, 0x43E, 0x442,
      0x44F, 0x20, 0x431, 0x44B, 0x20, 0x43E, 0x434, 0x43D, 0x443, 0x20, 0x443, 0x441,
      0x43B, 0x443, 0x433, 0x443]"

definition sending_label :: jsstring where
  "sending_label =
     [0x41E, 0x442, 0x43F, 0x440, 0x430, 0x432, 0x43A, 0x430, 0x2E, 0x2E, 0x2E]"

definition success_message :: jsstring where
  "success_message =
     [0x417, 0x430, 0x44F, 0x432, 0x43A, 0x430, 0x20, 0x43E, 0x442, 0x43F, 0x440, 0x430,
      0x432, 0x43B, 0x435, 0x43D, 0x430, 0x21, 0x20, 0x42F, 0x20, 0x441, 0x432, 0x44F,
      0x436, 0x443, 0x441, 0x44C, 0x20, 0x441, 0x20, 0x432, 0x430, 0x43C, 0x438, 0x2E]"

definition fallback_message :: jsstring where
  "fallback_message = [0x41E, 0x448, 0x438, 0x431, 0x43A, 0x430]"

definition submit_label :: jsstring where
  "submit_label =
     [0x41E, 0x442, 0x43F, 0x440, 0x430, 0x432, 0x438, 0x442, 0x44C, 0x20, 0x437, 0x430,
      0x44F, 0x432, 0x43A, 0x443]"

text \<open>The click listener of \<open>#dropdownBtn\<close>: \<open>classList.toggle('open')\<close>.\<close>

definition toggleMenu :: "page \<Rightarrow> page" where
  "toggleMenu p = p\<lparr>menu_open := \<not> menu_open p\<rparr>"

text \<open>
  The click listener of the document; \<open>inside\<close> says whether the target has an ancestor
  of class \<open>dropdown\<close>.
\<close>

definition document_click :: "bool \<Rightarrow> page \<Rightarrow> page" where
  "document_click inside p = (if \<not> inside then p\<lparr>menu_open := False\<rparr> else p)"

definition getSelectedServices :: "page \<Rightarrow> jsstring list" where
  "getSelectedServices p = map cb_value (filter checked (checkboxes p))"

text \<open>
  \<open>String.prototype.trim\<close> removes white space and line terminators from both ends.
\<close>

definition white_space :: "16 word \<Rightarrow> bool" where
  "white_space u =
     (u \<in> {0x09, 0x0A, 0x0B, 0x0C, 0x0D, 0x20, 0xA0, 0x1680, 0x2028, 0x2029, 0x202F,
            0x205F, 0x3000, 0xFEFF}
      \<or> (0x2000 \<le> u \<and> u \<le> 0x200A))"

definition trim :: "jsstring \<Rightarrow> jsstring" where
  "trim s = rev (dropWhile white_space (rev (dropWhile white_space s)))"

text \<open>What one run of the submit listener does: the page it leaves and its calls of \<open>fetch\<close>.\<close>

record submitted =
  page_after :: page
  requests :: "fetch_request list"

text \<open>
  The \<open>try\<close> block after \<open>fetch\<close> has settled with \<open>net\<close>: it either completes, with the
  page of the success branch, or throws, and then it has not touched the page.
\<close>

definition try_block :: "engine \<Rightarrow> fetch_result \<Rightarrow> page \<Rightarrow> js_error + page" where
  "try_block e net p =
     (case net of
        Rejected err \<Rightarrow> Inl err
      | Resolved res \<Rightarrow>
          (case json res of
             Inl err \<Rightarrow> Inl err
           | Inr data \<Rightarrow>
               if ok res
               then Inr (p\<lparr>status_text := success_message,
                           status_class := ascii ''status success'',
                           name_value := name_default p,
                           contact_value := contact_default p,
                           checkboxes := map (\<lambda>cb. cb\<lparr>checked := False\<rparr>) (checkboxes p)\<rparr>)
               else
                 (case get_prop e data (ascii ''error'') of
                    Inl err \<Rightarrow> Inl err
                  | Inr v \<Rightarrow>
                      (case to_string e (if truthy v then v else String fallback_message) of
                         Inl err \<Rightarrow> Inl err
                       | Inr m \<Rightarrow> Inl (Error m)))))"

text \<open>
  The submit listener of the form, with the outcome \<open>net\<close> of its \<open>fetch\<close> as an
  input. Its first statement, \<open>e.preventDefault()\<close>, touches nothing of the page.
\<close>

definition submit :: "engine \<Rightarrow> fetch_result \<Rightarrow> page \<Rightarrow> submitted" where
  "submit e net p =
     (let name = trim (name_value p);
          contact = trim (contact_value p);
          services = getSelectedServices p
      in if services = []
         then \<lparr>page_after = p\<lparr>status_text := select_service_message,
                                 status_class := ascii ''status error''\<rparr>,
               requests = []\<rparr>
         else
           let p1 = p\<lparr>btn_disabled := True, btn_text := sending_label,
                       status_text := [], status_class := ascii ''status''\<rparr>;
               request = \<lparr>url = ascii ''/api/send'',
                          http_method = ascii ''POST'',
                          headers = [(ascii ''Content-Type'', ascii ''application/json'')],
                          body = stringify_members
                                   [(ascii ''name'', String name),
                                    (ascii ''contact'', String contact),
                                    (ascii ''services'', Array (map String services))]\<rparr>;
               p2 = (case try_block e net p1 of
                       Inr after \<Rightarrow> after
                     | Inl err \<Rightarrow> p1\<lparr>status_text := message err,
                                      status_class := ascii ''status error''\<rparr>)
           in \<lparr>page_after = p2\<lparr>btn_disabled := False, btn_text := submit_label\<rparr>,
               requests = [request]\<rparr>)"

section \<open>Worked inputs\<close>

text \<open>
  Concrete inputs for the worked examples below. The examples contain no number and raise
  no engine error, so the rendering and the messages of \<open>sample_engine\<close> play no part.
\<close>

definition sample_engine :: engine where
  "sample_engine =
     \<lparr>number_to_string = (\<lambda>n. ascii ''0''),
      nullish_read_message = ascii ''Cannot read properties of undefined'',
      not_a_function_message = ascii ''services.map is not a function'',
      not_primitive_message = ascii ''Cannot convert object to primitive value''\<rparr>"

definition sample_env :: env where
  "sample_env = \<lparr>BOT_TOKEN = Some (ascii ''123:abc''), CHAT_ID = Some (ascii ''42'')\<rparr>"

definition ann_request :: jsval where
  "ann_request =
     Object [(ascii ''name'', String (ascii ''Ann'')),
             (ascii ''contact'', String (ascii ''ann@x.com'')),
             (ascii ''services'', Array [String (ascii ''Haircut'')])]"

definition empty_services_request :: jsval where
  "empty_services_request =
     Object [(ascii ''name'', String (ascii ''Ann'')),
             (ascii ''contact'', String (ascii ''ann@x.com'')),
             (ascii ''services'', Array [])]"

definition no_name_request :: jsval where
  "no_name_request =
     Object [(ascii ''contact'', String (ascii ''ann@x.com'')),
             (ascii ''services'', Array [String (ascii ''Haircut'')])]"

definition sample_success :: fetch_result where
  "sample_success =
     Resolved \<lparr>status = 200, json = Inr (Object [(ascii ''success'', Bool True)])\<rparr>"

definition sample_failure :: fetch_result where
  "sample_failure =
     Resolved \<lparr>status = 500, json = Inr (Object [(ascii ''error'', String generic_message)])\<rparr>"

definition sample_forbidden :: response where
  "sample_forbidden =
     \<lparr>status = 403, json = Inr (Object [(ascii ''description'', String (ascii ''Forbidden''))])\<rparr>"

definition sample_page :: page where
  "sample_page =
     \<lparr>name_value = ascii '' Ann '', name_default = [],
      contact_value = ascii ''ann@x.com'', contact_default = [],
      checkboxes = [\<lparr>cb_value = ascii ''Haircut'', checked = True\<rparr>,
                    \<lparr>cb_value = ascii ''Shave'', checked = False\<rparr>],
      menu_open = True, status_text = [], status_class = ascii ''status'',
      btn_disabled = False, btn_text = submit_label\<rparr>"

definition unchecked_page :: page where
  "unchecked_page =
     sample_page\<lparr>checkboxes := [\<lparr>cb_value = ascii ''Haircut'', checked = False\<rparr>]\<rparr>"

definition blank_name_page :: page where
  "blank_name_page = sample_page\<lparr>name_value := ascii ''  ''\<rparr>"

section \<open>Auxiliary facts\<close>

lemma ascii_simps: "ascii [] = []" "ascii (c # cs) = of_char c # ascii cs"
  by (simp_all add: ascii_def)

lemma sequence_map_Inr: "sequence (map (\<lambda>x. Inr (f x)) xs) = Inr (map f xs)"
  by (induction xs) simp_all

lemma service_lines_strings:
  "service_lines e (Array (map String ss)) = Inr (map (\<lambda>s. bullet @ s) ss)"
  by (simp add: comp_def sequence_map_Inr)

lemma join_concat: "join sep (x # ls) = x @ concat (map (\<lambda>l. sep @ l) ls)"
  by (induction ls arbitrary: x) simp_all

lemma build_text_valid:
  "build_text e (String n) (String c) (Array (map String ss)) =
     Inr (greeting_line @ [0x0A] @ [0x0A] @ name_label @ n @ [0x0A] @ contact_label @ c
          @ [0x0A] @ [0x0A] @ services_header @ concat (map (\<lambda>s. [0x0A] @ bullet @ s) ss))"
  by (simp add: build_text_def service_lines_strings join_concat comp_def
      del: service_lines.simps)

lemma truthy_length_strings: "ss \<noteq> [] \<Longrightarrow> truthy (opt_length (Array (map String ss)))"
  by simp

text \<open>Past the validation and the message construction, the handler is the \<open>try\<close> block.\<close>

lemma handle_accepted:
  assumes "destructure e req_body = Inr (name, contact, services)"
    and "truthy name" and "truthy contact" and "truthy (opt_length services)"
    and "build_text e name contact services = Inr msg"
  shows "handle e cfg upstream req_body =
     (case upstream of
        Rejected err \<Rightarrow> upstream_failure [send_message cfg msg] err
      | Resolved r \<Rightarrow>
          if \<not> ok r
          then upstream_failure [send_message cfg msg] (Error (ascii ''Telegram API error''))
          else \<lparr>reply = Some (200, [(ascii ''success'', Bool True)]),
                fetches = [send_message cfg msg], console_error = [], rejected = None\<rparr>)"
  using assms by (simp add: handle_def)

lemma handle_valid:
  assumes "destructure e req_body = Inr (String n, String c, Array (map String ss))"
    and "n \<noteq> []" and "c \<noteq> []" and "ss \<noteq> []"
  shows "\<exists>msg. build_text e (String n) (String c) (Array (map String ss)) = Inr msg \<and>
     handle e cfg upstream req_body =
     (case upstream of
        Rejected err \<Rightarrow> upstream_failure [send_message cfg msg] err
      | Resolved r \<Rightarrow>
          if \<not> ok r
          then upstream_failure [send_message cfg msg] (Error (ascii ''Telegram API error''))
          else \<lparr>reply = Some (200, [(ascii ''success'', Bool True)]),
                fetches = [send_message cfg msg], console_error = [], rejected = None\<rparr>)"
proof -
  have t: "truthy (String n)" "truthy (String c)"
    using assms(2,3) by simp_all
  show ?thesis
    using handle_accepted [OF assms(1) t truthy_length_strings [OF assms(4)] build_text_valid]
      build_text_valid by blast
qed

lemma outbound_body_valid:
  assumes "destructure e req_body = Inr (String n, String c, Array (map String ss))"
    and "n \<noteq> []" and "c \<noteq> []" and "ss \<noteq> []"
    and "CHAT_ID cfg = Some channel"
  shows "map (\<lambda>r. (http_method r, body r)) (fetches (handle e cfg upstream req_body)) =
           [(ascii ''POST'',
             [(ascii ''chat_id'', String channel),
              (ascii ''text'', String
                 (greeting_line @ [0x0A] @ [0x0A] @ name_label @ n @ [0x0A]
                  @ contact_label @ c @ [0x0A] @ [0x0A] @ services_header
                  @ concat (map (\<lambda>s. [0x0A] @ bullet @ s) ss))),
              (ascii ''parse_mode'', String (ascii ''HTML''))])]"
proof -
  from handle_valid [OF assms(1-4)] obtain msg
    where b: "build_text e (String n) (String c) (Array (map String ss)) = Inr msg"
      and h: "handle e cfg upstream req_body =
        (case upstream of
           Rejected err \<Rightarrow> upstream_failure [send_message cfg msg] err
         | Resolved r \<Rightarrow>
             if \<not> ok r
             then upstream_failure [send_message cfg msg] (Error (ascii ''Telegram API error''))
             else \<lparr>reply = Some (200, [(ascii ''success'', Bool True)]),
                   fetches = [send_message cfg msg], console_error = [], rejected = None\<rparr>)"
    by blast
  from b have m: "msg = greeting_line @ [0x0A] @ [0x0A] @ name_label @ n @ [0x0A]
                  @ contact_label @ c @ [0x0A] @ [0x0A] @ services_header
                  @ concat (map (\<lambda>s. [0x0A] @ bullet @ s) ss)"
    by (simp add: build_text_valid)
  show ?thesis
    unfolding h m using assms(5)
    by (simp add: upstream_failure_def send_message_def stringify_members_def env_value_def
        split: fetch_result.split)
qed

lemma not_sublist_foreign: "\<not> set xs \<subseteq> set ys \<Longrightarrow> \<not> sublist xs ys"
  using set_mono_sublist by blast

lemma api_error_foreign: "\<not> set (ascii ''Telegram API error'') \<subseteq> set generic_message"
  by (simp add: ascii_simps generic_message_def)

lemma handle_fetches:
  assumes "fetches (handle e cfg upstream req_body) \<noteq> []"
  shows "\<exists>name contact xs. destructure e req_body = Inr (name, contact, Array xs) \<and> xs \<noteq> []"
proof -
  from assms obtain name contact services
    where d: "destructure e req_body = Inr (name, contact, services)"
    by (cases "destructure e req_body") (auto simp add: handle_def)
  from assms d have t: "truthy (opt_length services)"
    by (auto simp add: handle_def split: if_splits)
  from assms d obtain msg where "build_text e name contact services = Inr msg"
    by (cases "build_text e name contact services") (auto simp add: handle_def split: if_splits)
  then obtain ls where "service_lines e services = Inr ls"
    by (auto simp add: build_text_def split: sum.splits)
  then obtain xs where "services = Array xs"
    by (cases services) simp_all
  with t d show ?thesis by auto
qed

lemma submit_requests:
  "requests (submit e net p) \<noteq> [] \<longleftrightarrow> getSelectedServices p \<noteq> []"
  by (simp add: submit_def Let_def)

text \<open>Whatever is not a parsed response with a success status makes the \<open>try\<close> block throw.\<close>

lemma try_block_throws:
  assumes "\<not> (\<exists>r data. net = Resolved r \<and> json r = Inr data \<and> ok r)"
  shows "\<exists>err. try_block e net p = Inl err"
  using assms by (auto simp add: try_block_def split: fetch_result.splits sum.splits)

lemma ann_destructure:
  "destructure e ann_request =
     Inr (String (ascii ''Ann''), String (ascii ''ann@x.com''),
          Array (map String [ascii ''Haircut'']))"
  by (simp add: ann_request_def destructure_def own_prop_def ascii_simps)

lemma ann_nonempty:
  "ascii ''Ann'' \<noteq> []" "ascii ''ann@x.com'' \<noteq> []" "[ascii ''Haircut''] \<noteq> []"
  by (simp_all add: ascii_simps)

lemma empty_services_destructure:
  "destructure e empty_services_request =
     Inr (String (ascii ''Ann''), String (ascii ''ann@x.com''), Array [])"
  by (simp add: empty_services_request_def destructure_def own_prop_def ascii_simps)

lemma no_name_destructure:
  "destructure e no_name_request =
     Inr (Undefined, String (ascii ''ann@x.com''), Array [String (ascii ''Haircut'')])"
  by (simp add: no_name_request_def destructure_def own_prop_def ascii_simps)

lemma sample_selected: "getSelectedServices sample_page = [ascii ''Haircut'']"
  by (simp add: sample_page_def getSelectedServices_def)

lemma sample_page_requests: "requests (submit e net sample_page) \<noteq> []"
  by (simp add: submit_requests sample_selected)

lemma unchecked_selected: "getSelectedServices unchecked_page = []"
  by (simp add: unchecked_page_def getSelectedServices_def)

lemma ann_fetches: "fetches (handle e cfg sample_success ann_request) \<noteq> []"
  using handle_valid [OF ann_destructure ann_nonempty, of e cfg sample_success]
  by (auto simp add: sample_success_def upstream_failure_def ok_def)

section \<open>The relay handler: claims\<close>

text \<open>
  The validation on a parsed body. Whenever the destructuring goes through (the body is
  an object, an array or a primitive other than \<open>undefined\<close> and \<open>null\<close>) and \<open>name\<close>
  or \<open>contact\<close> is absent or empty, or \<open>services\<close> is absent or empty, the handler
  answers with status 400 and the body \<open>{error: message}\<close>, the message a non-empty
  string, and makes no outbound call.
\<close>

lemma parsed_incomplete_request_rejected:
  assumes "destructure e req_body = Inr (name, contact, services)"
    and "name \<in> {Undefined, Null, String []}
         \<or> contact \<in> {Undefined, Null, String []}
         \<or> services \<in> {Undefined, Null, Array [], String []}"
  shows "reply (handle e cfg upstream req_body)
           = Some (400, [(ascii ''error'', String validation_message)])
       \<and> validation_message \<noteq> []
       \<and> fetches (handle e cfg upstream req_body) = []"
  using assms by (auto simp add: handle_def validation_message_def)

text \<open>
  Claim C1. Every request to \<open>POST /api/send\<close> whose body has \<open>name\<close>, \<open>contact\<close> or
  \<open>services\<close> absent or empty is to be answered with status 400 and \<open>{error: message}\<close>,
  with no outbound call. The handler does so for every parsed body (the lemma above), but
  not for the request that carries no parsed body at all: there \<open>req.body\<close> is
  \<open>undefined\<close>, all three fields are absent, and the destructuring on the handler's first
  line throws a \<open>TypeError\<close> before the check is reached. The handler then sends no
  response of its own (no 400, no \<open>error\<close> body), makes no outbound call, writes nothing
  with \<open>console.error\<close>, and its promise rejects.
\<close>

theorem relay_throws_without_body:
  "reply (handle e cfg upstream Undefined) = None
   \<and> reply (handle e cfg upstream Undefined)
       \<noteq> Some (400, [(ascii ''error'', String validation_message)])
   \<and> rejected (handle e cfg upstream Undefined) = Some (TypeError (nullish_read_message e))
   \<and> fetches (handle e cfg upstream Undefined) = []
   \<and> console_error (handle e cfg upstream Undefined) = []"
  by (simp add: handle_def destructure_def)

theorem relay_throws_without_body_witness:
  "reply (handle sample_engine sample_env sample_success Undefined) = None
   \<and> reply (handle sample_engine sample_env sample_success Undefined)
       \<noteq> Some (400, [(ascii ''error'', String validation_message)])
   \<and> rejected (handle sample_engine sample_env sample_success Undefined)
       = Some (TypeError (ascii ''Cannot read properties of undefined''))
   \<and> fetches (handle sample_engine sample_env sample_success Undefined) = []
   \<and> console_error (handle sample_engine sample_env sample_success Undefined) = []"
  using relay_throws_without_body [of sample_engine sample_env sample_success]
  by (simp add: sample_engine_def)

text \<open>
  Claim C2. For a valid request (non-empty string \<open>name\<close>, non-empty string \<open>contact\<close>,
  non-empty list of strings \<open>services\<close>) and a configured channel, the handler makes one
  outbound \<open>POST\<close> whose body is \<open>{chat_id: channel, text: message, parse_mode: "HTML"}\<close>,
  whatever the outcome of the call. The message is the greeting line, an empty line, the
  name line, the contact line, an empty line, the services header, and one bulleted line
  per service in order, each line after the first preceded by a newline. For
  \<open>{name: "Ann", contact: "ann@x.com", services: ["Haircut"]}\<close> the message is the text
  of the specification, written out here in UTF-16 code units.
\<close>

theorem relay_message_body:
  assumes "destructure e req_body = Inr (String n, String c, Array (map String ss))"
    and "n \<noteq> []" and "c \<noteq> []" and "ss \<noteq> []"
    and "CHAT_ID cfg = Some channel"
  shows "map (\<lambda>r. (http_method r, body r)) (fetches (handle e cfg upstream req_body)) =
           [(ascii ''POST'',
             [(ascii ''chat_id'', String channel),
              (ascii ''text'', String
                 (greeting_line @ [0x0A] @ [0x0A] @ name_label @ n @ [0x0A]
                  @ contact_label @ c @ [0x0A] @ [0x0A] @ services_header
                  @ concat (map (\<lambda>s. [0x0A] @ bullet @ s) ss))),
              (ascii ''parse_mode'', String (ascii ''HTML''))])]
       \<and> map (\<lambda>r. (http_method r, body r)) (fetches (handle e cfg upstream ann_request)) =
           [(ascii ''POST'',
             [(ascii ''chat_id'', String channel),
              (ascii ''text'', String
                 [0xD83D, 0xDCE9, 0x0020, 0x041D, 0x043E, 0x0432, 0x0430, 0x044F, 0x0020,
                  0x0437, 0x0430, 0x044F, 0x0432, 0x043A, 0x0430, 0x0020, 0x0441, 0x0020,
                  0x0441, 0x0430, 0x0439, 0x0442, 0x0430, 0x0021, 0x000A, 0x000A, 0xD83D,
                  0xDC64, 0x0020, 0x0418, 0x043C, 0x044F, 0x003A, 0x0020, 0x0041, 0x006E,
                  0x006E, 0x000A, 0xD83D, 0xDCF1, 0x0020, 0x041A, 0x043E, 0x043D, 0x0442,
                  0x0430, 0x043A, 0x0442, 0x003A, 0x0020, 0x0061, 0x006E, 0x006E, 0x0040,
                  0x0078, 0x002E, 0x0063, 0x006F, 0x006D, 0x000A, 0x000A, 0xD83D, 0xDD27,
                  0x0020, 0x0423, 0x0441, 0x043B, 0x0443, 0x0433, 0x0438, 0x003A, 0x000A,
                  0x0020, 0x0020, 0x2022, 0x0020, 0x0048, 0x0061, 0x0069, 0x0072, 0x0063,
                  0x0075, 0x0074]),
              (ascii ''parse_mode'', String (ascii ''HTML''))])]"
proof
  show "map (\<lambda>r. (http_method r, body r)) (fetches (handle e cfg upstream req_body)) =
           [(ascii ''POST'',
             [(ascii ''chat_id'', String channel),
              (ascii ''text'', String
                 (greeting_line @ [0x0A] @ [0x0A] @ name_label @ n @ [0x0A]
                  @ contact_label @ c @ [0x0A] @ [0x0A] @ services_header
                  @ concat (map (\<lambda>s. [0x0A] @ bullet @ s) ss))),
              (ascii ''parse_mode'', String (ascii ''HTML''))])]"
    by (rule outbound_body_valid [OF assms])
  show "map (\<lambda>r. (http_method r, body r)) (fetches (handle e cfg upstream ann_request)) =
           [(ascii ''POST'',
             [(ascii ''chat_id'', String channel),
              (ascii ''text'', String
                 [0xD83D, 0xDCE9, 0x0020, 0x041D, 0x043E, 0x0432, 0x0430, 0x044F, 0x0020,
                  0x0437, 0x0430, 0x044F, 0x0432, 0x043A, 0x0430, 0x0020, 0x0441, 0x0020,
                  0x0441, 0x0430, 0x0439, 0x0442, 0x0430, 0x0021, 0x000A, 0x000A, 0xD83D,
                  0xDC64, 0x0020, 0x0418, 0x043C, 0x044F, 0x003A, 0x0020, 0x0041, 0x006E,
                  0x006E, 0x000A, 0xD83D, 0xDCF1, 0x0020, 0x041A, 0x043E, 0x043D, 0x0442,
                  0x0430, 0x043A, 0x0442, 0x003A, 0x0020, 0x0061, 0x006E, 0x006E, 0x0040,
                  0x0078, 0x002E, 0x0063, 0x006F, 0x006D, 0x000A, 0x000A, 0xD83D, 0xDD27,
                  0x0020, 0x0423, 0x0441, 0x043B, 0x0443, 0x0433, 0x0438, 0x003A, 0x000A,
                  0x0020, 0x0020, 0x2022, 0x0020, 0x0048, 0x0061, 0x0069, 0x0072, 0x0063,
                  0x0075, 0x0074]),
              (ascii ''parse_mode'', String (ascii ''HTML''))])]"
    using outbound_body_valid [OF ann_destructure ann_nonempty assms(5), of e upstream]
    by (simp add: greeting_line_def name_label_def contact_label_def services_header_def
        bullet_def ascii_simps)
qed

theorem relay_message_body_witness:
  "destructure sample_engine ann_request
     = Inr (String (ascii ''Ann''), String (ascii ''ann@x.com''),
            Array (map String [ascii ''Haircut'']))
   \<and> CHAT_ID sample_env = Some (ascii ''42'')
   \<and> map (\<lambda>r. (http_method r, body r))
        (fetches (handle sample_engine sample_env sample_success ann_request)) =
           [(ascii ''POST'',
             [(ascii ''chat_id'', String (ascii ''42'')),
              (ascii ''text'', String
                 [0xD83D, 0xDCE9, 0x0020, 0x041D, 0x043E, 0x0432, 0x0430, 0x044F, 0x0020,
                  0x0437, 0x0430, 0x044F, 0x0432, 0x043A, 0x0430, 0x0020, 0x0441, 0x0020,
                  0x0441, 0x0430, 0x0439, 0x0442, 0x0430, 0x0021, 0x000A, 0x000A, 0xD83D,
                  0xDC64, 0x0020, 0x0418, 0x043C, 0x044F, 0x003A, 0x0020, 0x0041, 0x006E,
                  0x006E, 0x000A, 0xD83D, 0xDCF1, 0x0020, 0x041A, 0x043E, 0x043D, 0x0442,
                  0x0430, 0x043A, 0x0442, 0x003A, 0x0020, 0x0061, 0x006E, 0x006E, 0x0040,
                  0x0078, 0x002E, 0x0063, 0x006F, 0x006D, 0x000A, 0x000A, 0xD83D, 0xDD27,
                  0x0020, 0x0423, 0x0441, 0x043B, 0x0443, 0x0433, 0x0438, 0x003A, 0x000A,
                  0x0020, 0x0020, 0x2022, 0x0020, 0x0048, 0x0061, 0x0069, 0x0072, 0x0063,
                  0x0075, 0x0074]),
              (ascii ''parse_mode'', String (ascii ''HTML''))])]"
proof -
  have c: "CHAT_ID sample_env = Some (ascii ''42'')"
    by (simp add: sample_env_def)
  from ann_destructure [of sample_engine] c
    relay_message_body [OF ann_destructure ann_nonempty c, of sample_engine sample_success]
  show ?thesis by blast
qed

text \<open>
  Claim C3. For a valid request, when the response of the outbound call has a success
  status, the handler answers with status 200 and the body \<open>{success: true}\<close>, and it
  has made exactly one outbound call.
\<close>

theorem relay_success_response:
  assumes "destructure e req_body = Inr (String n, String c, Array (map String ss))"
    and "n \<noteq> []" and "c \<noteq> []" and "ss \<noteq> []"
    and "ok r"
  shows "reply (handle e cfg (Resolved r) req_body)
           = Some (200, [(ascii ''success'', Bool True)])
       \<and> length (fetches (handle e cfg (Resolved r) req_body)) = 1"
  using handle_valid [OF assms(1-4), of cfg "Resolved r"] assms(5) by auto

theorem relay_success_response_witness:
  "destructure sample_engine ann_request
     = Inr (String (ascii ''Ann''), String (ascii ''ann@x.com''),
            Array (map String [ascii ''Haircut'']))
   \<and> ok \<lparr>status = 200, json = Inr (Object [(ascii ''ok'', Bool True)])\<rparr>
   \<and> reply (handle sample_engine sample_env
        (Resolved \<lparr>status = 200, json = Inr (Object [(ascii ''ok'', Bool True)])\<rparr>) ann_request)
       = Some (200, [(ascii ''success'', Bool True)])
   \<and> length (fetches (handle sample_engine sample_env
        (Resolved \<lparr>status = 200, json = Inr (Object [(ascii ''ok'', Bool True)])\<rparr>)
        ann_request)) = 1"
proof -
  have k: "ok \<lparr>status = 200, json = Inr (Object [(ascii ''ok'', Bool True)])\<rparr>"
    by (simp add: ok_def)
  from ann_destructure [of sample_engine] k
    relay_success_response [OF ann_destructure ann_nonempty k, of sample_engine sample_env]
  show ?thesis by blast
qed

text \<open>
  Claim C4. For a valid request, when the outbound call fails (the call rejects, or its
  response has a non-success status), the handler writes the failure detail with
  \<open>console.error\<close> and answers with status 500 and the body \<open>{error: message}\<close>, where
  the message is one fixed generic text, the same for every failure. The detail is the
  rejection's message, or \<open>Telegram API error\<close> for a non-success status. The generic text
  does not contain \<open>Telegram API error\<close>, nor any detail that has a code unit foreign to
  the generic text (its Cyrillic letters and the space), as every ASCII-lettered message has.
\<close>

theorem relay_failure_response:
  assumes "destructure e req_body = Inr (String n, String c, Array (map String ss))"
    and "n \<noteq> []" and "c \<noteq> []" and "ss \<noteq> []"
    and "(upstream = Rejected err \<and> detail = message err)
         \<or> (upstream = Resolved r \<and> \<not> ok r \<and> detail = ascii ''Telegram API error'')"
  shows "reply (handle e cfg upstream req_body)
           = Some (500, [(ascii ''error'', String generic_message)])
       \<and> console_error (handle e cfg upstream req_body)
           = [[String log_prefix, String detail]]
       \<and> length (fetches (handle e cfg upstream req_body)) = 1
       \<and> (\<not> set detail \<subseteq> set generic_message \<longrightarrow> \<not> sublist detail generic_message)
       \<and> \<not> sublist (ascii ''Telegram API error'') generic_message"
  using handle_valid [OF assms(1-4), of cfg upstream] assms(5)
    not_sublist_foreign [of detail generic_message]
    not_sublist_foreign [OF api_error_foreign]
  by (auto simp add: upstream_failure_def)

theorem relay_failure_response_witness:
  "destructure sample_engine ann_request
     = Inr (String (ascii ''Ann''), String (ascii ''ann@x.com''),
            Array (map String [ascii ''Haircut'']))
   \<and> \<not> ok sample_forbidden
   \<and> reply (handle sample_engine sample_env (Resolved sample_forbidden) ann_request)
       = Some (500, [(ascii ''error'', String generic_message)])
   \<and> console_error (handle sample_engine sample_env (Resolved sample_forbidden) ann_request)
       = [[String log_prefix, String (ascii ''Telegram API error'')]]
   \<and> reply (handle sample_engine sample_env (Rejected (TypeError (ascii ''fetch failed'')))
        ann_request)
       = Some (500, [(ascii ''error'', String generic_message)])
   \<and> console_error (handle sample_engine sample_env
        (Rejected (TypeError (ascii ''fetch failed''))) ann_request)
       = [[String log_prefix, String (ascii ''fetch failed'')]]
   \<and> \<not> set (ascii ''fetch failed'') \<subseteq> set generic_message
   \<and> \<not> sublist (ascii ''fetch failed'') generic_message
   \<and> \<not> sublist (ascii ''Telegram API error'') generic_message"
proof -
  have k: "\<not> ok sample_forbidden"
    by (simp add: ok_def sample_forbidden_def)
  have f: "\<not> set (ascii ''fetch failed'') \<subseteq> set generic_message"
    by (simp add: ascii_simps generic_message_def)
  have s: "(Resolved sample_forbidden = Rejected err
            \<and> ascii ''Telegram API error'' = message err)
         \<or> (Resolved sample_forbidden = Resolved sample_forbidden \<and> \<not> ok sample_forbidden
            \<and> ascii ''Telegram API error'' = ascii ''Telegram API error'')" for err
    using k by simp
  have j: "(Rejected (TypeError (ascii ''fetch failed''))
              = Rejected (TypeError (ascii ''fetch failed''))
            \<and> ascii ''fetch failed'' = message (TypeError (ascii ''fetch failed'')))
         \<or> (Rejected (TypeError (ascii ''fetch failed'')) = Resolved r \<and> \<not> ok r
            \<and> ascii ''fetch failed'' = ascii ''Telegram API error'')" for r
    by simp
  note a = relay_failure_response [OF ann_destructure ann_nonempty s,
      of sample_engine sample_env]
  note b = relay_failure_response [OF ann_destructure ann_nonempty j,
      of sample_engine sample_env]
  from ann_destructure [of sample_engine] k f a b show ?thesis by blast
qed

text \<open>
  Claim C10. The 400 response is one fixed body whichever condition failed: any two
  requests that fail the validation (a falsy \<open>name\<close>, a falsy \<open>contact\<close> or a falsy
  \<open>services?.length\<close>, in any combination) get the same response, with status 400, so
  the response does not tell which field was missing.
\<close>

theorem validation_response_fixed:
  assumes "destructure e1 b1 = Inr (n1, c1, s1)"
    and "\<not> truthy n1 \<or> \<not> truthy c1 \<or> \<not> truthy (opt_length s1)"
    and "destructure e2 b2 = Inr (n2, c2, s2)"
    and "\<not> truthy n2 \<or> \<not> truthy c2 \<or> \<not> truthy (opt_length s2)"
  shows "reply (handle e1 cfg1 u1 b1) = reply (handle e2 cfg2 u2 b2)
       \<and> (\<exists>response_body. reply (handle e1 cfg1 u1 b1) = Some (400, response_body))"
  using assms by (simp add: handle_def)

theorem validation_response_fixed_witness:
  "destructure sample_engine no_name_request
     = Inr (Undefined, String (ascii ''ann@x.com''), Array [String (ascii ''Haircut'')])
   \<and> \<not> truthy Undefined
   \<and> destructure sample_engine empty_services_request
     = Inr (String (ascii ''Ann''), String (ascii ''ann@x.com''), Array [])
   \<and> \<not> truthy (opt_length (Array []))
   \<and> reply (handle sample_engine sample_env sample_failure no_name_request)
     = reply (handle sample_engine sample_env sample_success empty_services_request)
   \<and> (\<exists>response_body. reply (handle sample_engine sample_env sample_failure no_name_request)
         = Some (400, response_body))"
proof -
  have t: "\<not> truthy Undefined" "\<not> truthy (opt_length (Array []))"
    by simp_all
  have m1: "\<not> truthy Undefined \<or> \<not> truthy (String (ascii ''ann@x.com''))
            \<or> \<not> truthy (opt_length (Array [String (ascii ''Haircut'')]))"
    by simp
  have m2: "\<not> truthy (String (ascii ''Ann'')) \<or> \<not> truthy (String (ascii ''ann@x.com''))
            \<or> \<not> truthy (opt_length (Array []))"
    by simp
  from t no_name_destructure [of sample_engine] empty_services_destructure [of sample_engine]
    validation_response_fixed [OF no_name_destructure m1 empty_services_destructure m2,
      of sample_engine sample_env sample_failure sample_engine sample_env sample_success]
  show ?thesis by blast
qed

section \<open>The form controller: claims\<close>

text \<open>
  Claim C6. When \<open>getSelectedServices\<close> returns the empty list, the submit listener sets
  the status to the message asking to select at least one service (the claim's string,
  written out in UTF-16 code units), with the class \<open>status error\<close>, and returns
  without calling \<open>fetch\<close>.
\<close>

theorem submit_without_services:
  assumes "getSelectedServices p = []"
  shows "status_text (page_after (submit e net p))
           = [0x0412, 0x044B, 0x0431, 0x0435, 0x0440, 0x0438, 0x0442, 0x0435, 0x0020,
            0x0445, 0x043E, 0x0442, 0x044F, 0x0020, 0x0431, 0x044B, 0x0020, 0x043E,
            0x0434, 0x043D, 0x0443, 0x0020, 0x0443, 0x0441, 0x043B, 0x0443, 0x0433,
            0x0443]
       \<and> status_class (page_after (submit e net p)) = ascii ''status error''
       \<and> requests (submit e net p) = []"
  using assms by (simp add: submit_def select_service_message_def)

theorem submit_without_services_witness:
  "getSelectedServices unchecked_page = []
   \<and> status_text (page_after (submit sample_engine sample_success unchecked_page))
       = [0x0412, 0x044B, 0x0431, 0x0435, 0x0440, 0x0438, 0x0442, 0x0435, 0x0020,
            0x0445, 0x043E, 0x0442, 0x044F, 0x0020, 0x0431, 0x044B, 0x0020, 0x043E,
            0x0434, 0x043D, 0x0443, 0x0020, 0x0443, 0x0441, 0x043B, 0x0443, 0x0433,
            0x0443]
   \<and> status_class (page_after (submit sample_engine sample_success unchecked_page))
       = ascii ''status error''
   \<and> requests (submit sample_engine sample_success unchecked_page) = []"
  using unchecked_selected
    submit_without_services [OF unchecked_selected, of sample_engine sample_success]
  by blast

text \<open>
  Claim C7. Whenever the submit listener has called \<open>fetch\<close>, on every way out (success
  response, non-success response, network failure, or a throw while the response is
  handled) the button is enabled again and carries its label (the claim's string, written
  out in UTF-16 code units).
\<close>

theorem submit_restores_button:
  assumes "requests (submit e net p) \<noteq> []"
  shows "btn_disabled (page_after (submit e net p)) = False
       \<and> btn_text (page_after (submit e net p))
           = [0x041E, 0x0442, 0x043F, 0x0440, 0x0430, 0x0432, 0x0438, 0x0442, 0x044C,
            0x0020, 0x0437, 0x0430, 0x044F, 0x0432, 0x043A, 0x0443]"
  using assms by (simp add: submit_def Let_def submit_label_def split: if_splits)

theorem submit_restores_button_witness:
  "requests (submit sample_engine sample_success sample_page) \<noteq> []
   \<and> btn_disabled (page_after (submit sample_engine sample_success sample_page)) = False
   \<and> btn_text (page_after (submit sample_engine sample_success sample_page)) = submit_label
   \<and> requests (submit sample_engine sample_failure sample_page) \<noteq> []
   \<and> btn_disabled (page_after (submit sample_engine sample_failure sample_page)) = False
   \<and> btn_text (page_after (submit sample_engine sample_failure sample_page)) = submit_label
   \<and> requests (submit sample_engine (Rejected (TypeError (ascii ''Failed to fetch'')))
        sample_page) \<noteq> []
   \<and> btn_disabled (page_after (submit sample_engine
        (Rejected (TypeError (ascii ''Failed to fetch''))) sample_page)) = False
   \<and> btn_text (page_after (submit sample_engine
        (Rejected (TypeError (ascii ''Failed to fetch''))) sample_page)) = submit_label
   \<and> requests (submit sample_engine
        (Resolved \<lparr>status = 200, json = Inl (SyntaxError (ascii ''Unexpected token''))\<rparr>)
        sample_page) \<noteq> []
   \<and> btn_disabled (page_after (submit sample_engine
        (Resolved \<lparr>status = 200, json = Inl (SyntaxError (ascii ''Unexpected token''))\<rparr>)
        sample_page)) = False
   \<and> btn_text (page_after (submit sample_engine
        (Resolved \<lparr>status = 200, json = Inl (SyntaxError (ascii ''Unexpected token''))\<rparr>)
        sample_page)) = submit_label"
  using sample_page_requests
    submit_restores_button [OF sample_page_requests, of sample_engine sample_success]
    submit_restores_button [OF sample_page_requests, of sample_engine sample_failure]
    submit_restores_button [OF sample_page_requests, of sample_engine
      "Rejected (TypeError (ascii ''Failed to fetch''))"]
    submit_restores_button [OF sample_page_requests, of sample_engine
      "Resolved \<lparr>status = 200, json = Inl (SyntaxError (ascii ''Unexpected token''))\<rparr>"]
  by (simp add: submit_label_def)

text \<open>
  Claim C8. The submit listener does not check \<open>name\<close> or \<open>contact\<close>: with at least one
  service checked it sends one \<open>POST\<close> to \<open>/api/send\<close> with the trimmed name, the trimmed
  contact and the selected services, also when the trimmed name or contact is empty. Such
  a body is turned down by the relay handler only, with status 400 and no outbound call.
\<close>

theorem submit_sends_unchecked_fields:
  assumes "getSelectedServices p \<noteq> []"
  shows "requests (submit e net p) =
           [\<lparr>url = ascii ''/api/send'', http_method = ascii ''POST'',
             headers = [(ascii ''Content-Type'', ascii ''application/json'')],
             body = [(ascii ''name'', String (trim (name_value p))),
                     (ascii ''contact'', String (trim (contact_value p))),
                     (ascii ''services'', Array (map String (getSelectedServices p)))]\<rparr>]
       \<and> (trim (name_value p) = [] \<or> trim (contact_value p) = [] \<longrightarrow>
            reply (handle e' cfg upstream
                     (Object [(ascii ''name'', String (trim (name_value p))),
                              (ascii ''contact'', String (trim (contact_value p))),
                              (ascii ''services'', Array (map String (getSelectedServices p)))]))
              = Some (400, [(ascii ''error'', String validation_message)])
            \<and> fetches (handle e' cfg upstream
                     (Object [(ascii ''name'', String (trim (name_value p))),
                              (ascii ''contact'', String (trim (contact_value p))),
                              (ascii ''services'', Array (map String (getSelectedServices p)))]))
              = [])"
proof -
  have r: "requests (submit e net p) =
           [\<lparr>url = ascii ''/api/send'', http_method = ascii ''POST'',
             headers = [(ascii ''Content-Type'', ascii ''application/json'')],
             body = [(ascii ''name'', String (trim (name_value p))),
                     (ascii ''contact'', String (trim (contact_value p))),
                     (ascii ''services'', Array (map String (getSelectedServices p)))]\<rparr>]"
    using assms by (simp add: submit_def Let_def stringify_members_def)
  have d: "destructure e' (Object [(ascii ''name'', String n), (ascii ''contact'', String c),
                     (ascii ''services'', s)]) = Inr (String n, String c, s)" for n c s
    by (simp add: destructure_def own_prop_def ascii_simps)
  show ?thesis
    unfolding r by (auto simp add: handle_def d)
qed

theorem submit_sends_unchecked_fields_witness:
  "getSelectedServices blank_name_page \<noteq> []
   \<and> trim (name_value blank_name_page) = []
   \<and> requests (submit sample_engine sample_failure blank_name_page) =
           [\<lparr>url = ascii ''/api/send'', http_method = ascii ''POST'',
             headers = [(ascii ''Content-Type'', ascii ''application/json'')],
             body = [(ascii ''name'', String []),
                     (ascii ''contact'', String (ascii ''ann@x.com'')),
                     (ascii ''services'', Array [String (ascii ''Haircut'')])]\<rparr>]
   \<and> reply (handle sample_engine sample_env sample_success
               (Object [(ascii ''name'', String []),
                        (ascii ''contact'', String (ascii ''ann@x.com'')),
                        (ascii ''services'', Array [String (ascii ''Haircut'')])]))
        = Some (400, [(ascii ''error'', String validation_message)])
   \<and> fetches (handle sample_engine sample_env sample_success
               (Object [(ascii ''name'', String []),
                        (ascii ''contact'', String (ascii ''ann@x.com'')),
                        (ascii ''services'', Array [String (ascii ''Haircut'')])])) = []"
proof -
  have s: "getSelectedServices blank_name_page = [ascii ''Haircut'']"
    by (simp add: blank_name_page_def getSelectedServices_def sample_page_def)
  then have g: "getSelectedServices blank_name_page \<noteq> []"
    by simp
  have t: "trim (name_value blank_name_page) = []"
    by (simp add: blank_name_page_def trim_def white_space_def ascii_simps)
  have c: "trim (contact_value blank_name_page) = ascii ''ann@x.com''"
    by (simp add: blank_name_page_def sample_page_def trim_def white_space_def ascii_simps)
  from g t
    submit_sends_unchecked_fields [OF g, of sample_engine sample_failure sample_engine
      sample_env sample_success]
  show ?thesis by (simp add: s c)
qed

text \<open>
  Claim C9. On every way through the submit listener other than the success branch (no
  service selected, network failure, non-success response, or a response whose body does
  not parse) the values of the two inputs and the checkboxes are as they were, and the
  status carries the class \<open>status error\<close>. The success branch alone resets the inputs
  to their default value (empty, unless the markup gives one) and unchecks every checkbox.
\<close>

theorem submit_failure_frame:
  "(getSelectedServices p = []
      \<or> \<not> (\<exists>r data. net = Resolved r \<and> json r = Inr data \<and> ok r) \<longrightarrow>
      name_value (page_after (submit e net p)) = name_value p
      \<and> contact_value (page_after (submit e net p)) = contact_value p
      \<and> checkboxes (page_after (submit e net p)) = checkboxes p
      \<and> status_class (page_after (submit e net p)) = ascii ''status error'')
   \<and> (getSelectedServices p \<noteq> []
      \<and> (\<exists>r data. net = Resolved r \<and> json r = Inr data \<and> ok r) \<longrightarrow>
      name_value (page_after (submit e net p)) = name_default p
      \<and> contact_value (page_after (submit e net p)) = contact_default p
      \<and> checkboxes (page_after (submit e net p))
          = map (\<lambda>cb. \<lparr>cb_value = cb_value cb, checked = False\<rparr>) (checkboxes p)
      \<and> status_class (page_after (submit e net p)) = ascii ''status success'')"
proof (intro conjI impI)
  assume a: "getSelectedServices p = []
      \<or> \<not> (\<exists>r data. net = Resolved r \<and> json r = Inr data \<and> ok r)"
  have "name_value (page_after (submit e net p)) = name_value p
      \<and> contact_value (page_after (submit e net p)) = contact_value p
      \<and> checkboxes (page_after (submit e net p)) = checkboxes p
      \<and> status_class (page_after (submit e net p)) = ascii ''status error''"
  proof (cases "getSelectedServices p = []")
    case True
    then show ?thesis by (simp add: submit_def)
  next
    case False
    with a have "\<not> (\<exists>r data. net = Resolved r \<and> json r = Inr data \<and> ok r)"
      by simp
    then obtain err where
      "try_block e net (p\<lparr>btn_disabled := True, btn_text := sending_label,
                          status_text := [], status_class := ascii ''status''\<rparr>) = Inl err"
      using try_block_throws by blast
    with False show ?thesis by (simp add: submit_def Let_def)
  qed
  then show "name_value (page_after (submit e net p)) = name_value p"
    and "contact_value (page_after (submit e net p)) = contact_value p"
    and "checkboxes (page_after (submit e net p)) = checkboxes p"
    and "status_class (page_after (submit e net p)) = ascii ''status error''"
    by simp_all
next
  assume "getSelectedServices p \<noteq> []
      \<and> (\<exists>r data. net = Resolved r \<and> json r = Inr data \<and> ok r)"
  then show "name_value (page_after (submit e net p)) = name_default p"
    and "contact_value (page_after (submit e net p)) = contact_default p"
    and "checkboxes (page_after (submit e net p))
          = map (\<lambda>cb. \<lparr>cb_value = cb_value cb, checked = False\<rparr>) (checkboxes p)"
    and "status_class (page_after (submit e net p)) = ascii ''status success''"
    by (auto simp add: submit_def Let_def try_block_def)
qed

theorem submit_failure_frame_witness:
  "\<not> (\<exists>r data. sample_failure = Resolved r \<and> json r = Inr data \<and> ok r)
   \<and> name_value (page_after (submit sample_engine sample_failure sample_page))
       = name_value sample_page
   \<and> contact_value (page_after (submit sample_engine sample_failure sample_page))
       = contact_value sample_page
   \<and> checkboxes (page_after (submit sample_engine sample_failure sample_page))
       = checkboxes sample_page
   \<and> status_class (page_after (submit sample_engine sample_failure sample_page))
       = ascii ''status error''
   \<and> getSelectedServices sample_page \<noteq> []
   \<and> (\<exists>r data. sample_success = Resolved r \<and> json r = Inr data \<and> ok r)
   \<and> name_value (page_after (submit sample_engine sample_success sample_page)) = []
   \<and> contact_value (page_after (submit sample_engine sample_success sample_page)) = []
   \<and> checkboxes (page_after (submit sample_engine sample_success sample_page))
       = [\<lparr>cb_value = ascii ''Haircut'', checked = False\<rparr>,
          \<lparr>cb_value = ascii ''Shave'', checked = False\<rparr>]
   \<and> status_class (page_after (submit sample_engine sample_success sample_page))
       = ascii ''status success''"
proof -
  have f: "\<not> (\<exists>r data. sample_failure = Resolved r \<and> json r = Inr data \<and> ok r)"
    by (simp add: sample_failure_def ok_def)
  have s: "\<exists>r data. sample_success = Resolved r \<and> json r = Inr data \<and> ok r"
    by (simp add: sample_success_def ok_def)
  have g: "getSelectedServices sample_page \<noteq> []"
    by (simp add: sample_selected)
  have p: "name_default sample_page = []" "contact_default sample_page = []"
    "map (\<lambda>cb. \<lparr>cb_value = cb_value cb, checked = False\<rparr>) (checkboxes sample_page)
       = [\<lparr>cb_value = ascii ''Haircut'', checked = False\<rparr>,
          \<lparr>cb_value = ascii ''Shave'', checked = False\<rparr>]"
    by (simp_all add: sample_page_def)
  from f s g p submit_failure_frame [of sample_page sample_failure sample_engine]
    submit_failure_frame [of sample_page sample_success sample_engine]
  show ?thesis by simp
qed

section \<open>Both sides: the services of a relayed request\<close>

text \<open>
  Claim C5. Whenever a relay call is attempted the services are non-empty, on both
  sides. The handler calls \<open>fetch\<close> only for a body whose \<open>services\<close> is a non-empty
  array, and answers 400 without calling it when \<open>services\<close> is absent or empty. The
  submit listener calls \<open>fetch\<close> only when a service is checked, and then sends the
  checked services; with none checked it makes no call.
\<close>

theorem services_nonempty_when_relayed:
  "(fetches (handle e cfg upstream req_body) \<noteq> [] \<longrightarrow>
      (\<exists>name contact xs.
          destructure e req_body = Inr (name, contact, Array xs) \<and> xs \<noteq> []))
   \<and> (requests (submit e' net p) \<noteq> [] \<longrightarrow>
        getSelectedServices p \<noteq> []
        \<and> map (\<lambda>r. own_prop (body r) (ascii ''services'')) (requests (submit e' net p))
            = [Array (map String (getSelectedServices p))])
   \<and> (getSelectedServices p = [] \<longrightarrow> requests (submit e' net p) = [])
   \<and> (destructure e req_body = Inr (name, contact, services)
        \<and> services \<in> {Undefined, Null, Array []} \<longrightarrow>
        (\<exists>response_body. reply (handle e cfg upstream req_body) = Some (400, response_body))
        \<and> fetches (handle e cfg upstream req_body) = [])"
proof (intro conjI impI)
  assume "fetches (handle e cfg upstream req_body) \<noteq> []"
  then show "\<exists>name contact xs.
      destructure e req_body = Inr (name, contact, Array xs) \<and> xs \<noteq> []"
    by (rule handle_fetches)
next
  assume "requests (submit e' net p) \<noteq> []"
  then show "getSelectedServices p \<noteq> []"
    by (simp add: submit_requests)
next
  assume "requests (submit e' net p) \<noteq> []"
  then have "getSelectedServices p \<noteq> []"
    by (simp add: submit_requests)
  then show "map (\<lambda>r. own_prop (body r) (ascii ''services'')) (requests (submit e' net p))
            = [Array (map String (getSelectedServices p))]"
    by (simp add: submit_def Let_def stringify_members_def own_prop_def ascii_simps)
next
  assume "getSelectedServices p = []"
  then show "requests (submit e' net p) = []"
    by (simp add: submit_def)
next
  assume a: "destructure e req_body = Inr (name, contact, services)
        \<and> services \<in> {Undefined, Null, Array []}"
  then show "\<exists>response_body. reply (handle e cfg upstream req_body) = Some (400, response_body)"
    by (auto simp add: handle_def)
  from a show "fetches (handle e cfg upstream req_body) = []"
    by (auto simp add: handle_def)
qed

theorem services_nonempty_when_relayed_witness:
  "fetches (handle sample_engine sample_env sample_success ann_request) \<noteq> []
   \<and> (\<exists>name contact xs.
         destructure sample_engine ann_request = Inr (name, contact, Array xs) \<and> xs \<noteq> [])
   \<and> requests (submit sample_engine sample_success sample_page) \<noteq> []
   \<and> getSelectedServices sample_page \<noteq> []
   \<and> map (\<lambda>r. own_prop (body r) (ascii ''services''))
        (requests (submit sample_engine sample_success sample_page))
      = [Array (map String (getSelectedServices sample_page))]
   \<and> getSelectedServices unchecked_page = []
   \<and> requests (submit sample_engine sample_success unchecked_page) = []
   \<and> destructure sample_engine empty_services_request
      = Inr (String (ascii ''Ann''), String (ascii ''ann@x.com''), Array [])
   \<and> (\<exists>response_body.
        reply (handle sample_engine sample_env sample_success empty_services_request)
        = Some (400, response_body))
   \<and> fetches (handle sample_engine sample_env sample_success empty_services_request) = []"
proof -
  have f: "fetches (handle sample_engine sample_env sample_success ann_request) \<noteq> []"
    by (rule ann_fetches)
  have r: "requests (submit sample_engine sample_success sample_page) \<noteq> []"
    by (rule sample_page_requests)
  have u: "getSelectedServices unchecked_page = []"
    by (rule unchecked_selected)
  have d: "destructure sample_engine empty_services_request
      = Inr (String (ascii ''Ann''), String (ascii ''ann@x.com''), Array [])"
    by (rule empty_services_destructure)
  have m: "Array [] \<in> {Undefined, Null, Array []}"
    by simp
  note a = services_nonempty_when_relayed [of sample_engine sample_env sample_success
      ann_request sample_engine sample_success sample_page]
  note b = services_nonempty_when_relayed [of sample_engine sample_env sample_success
      empty_services_request sample_engine sample_success unchecked_page
      "String (ascii ''Ann'')" "String (ascii ''ann@x.com'')" "Array []"]
  from a f have 1: "\<exists>name contact xs.
      destructure sample_engine ann_request = Inr (name, contact, Array xs) \<and> xs \<noteq> []"
    by blast
  from a r have 2: "getSelectedServices sample_page \<noteq> []
     \<and> map (\<lambda>r. own_prop (body r) (ascii ''services''))
        (requests (submit sample_engine sample_success sample_page))
      = [Array (map String (getSelectedServices sample_page))]"
    by blast
  from b u have 3: "requests (submit sample_engine sample_success unchecked_page) = []"
    by blast
  from b d m have 4: "(\<exists>response_body.
        reply (handle sample_engine sample_env sample_success empty_services_request)
        = Some (400, response_body))
     \<and> fetches (handle sample_engine sample_env sample_success empty_services_request) = []"
    by blast
  from f 1 r 2 u 3 d 4 show ?thesis by blast
qed


end
